theory Spec2Isabelle
  imports Complex_Main "HOL-Library.Word"
begin

section \<open>Errors\<close>

text \<open>
  The exceptions that the functions of \<^verbatim>\<open>snipbook.py\<close> and the library calls they make
  can raise. A function that can raise returns \<open>error + 'a\<close>, with \<open>Inl\<close> for the exception.
\<close>

datatype error =
  ValueError | IndexError | KeyError | TypeError | ZeroDivisionError
  | AssertionError | FileExistsError

section \<open>RegionExtractor: \<^verbatim>\<open>find_contiguous_rectangles\<close>\<close>

subsection \<open>The library call \<^verbatim>\<open>scipy.ndimage.label\<close>\<close>

text \<open>
  A mask is a two-dimensional boolean array, given as its list of rows. A cell is a pair
  (row, column). \<^verbatim>\<open>label(nparr)\<close> with the default structuring element joins cells that
  touch along an edge (orthogonal adjacency) and numbers the features 1, 2, ... in the order
  in which a row-major scan of the array meets their first cell. It returns the array of
  labels (0 for the background) and the number of features.
\<close>

type_synonym cell = "nat \<times> nat"

definition positions :: "'a list list \<Rightarrow> cell list" where
  "positions arr =
     concat (map (\<lambda>r. map (\<lambda>c. (r, c)) [0..<length (arr ! r)]) [0..<length arr])"

definition true_cells :: "bool list list \<Rightarrow> cell list" where
  "true_cells nparr = filter (\<lambda>(r, c). nparr ! r ! c) (positions nparr)"

definition adjacent :: "cell \<Rightarrow> cell \<Rightarrow> bool" where
  "adjacent a b \<longleftrightarrow>
     (fst a = fst b \<and> (snd a = Suc (snd b) \<or> snd b = Suc (snd a))) \<or>
     (snd a = snd b \<and> (fst a = Suc (fst b) \<or> fst b = Suc (fst a)))"

definition touches :: "cell list \<Rightarrow> cell \<Rightarrow> bool" where
  "touches feat x = list_ex (adjacent x) feat"

text \<open>
  \<open>grow feat rest\<close> is the flood fill: it moves the cells of \<open>rest\<close> that touch the
  feature into it until none is left.
\<close>

function grow :: "cell list \<Rightarrow> cell list \<Rightarrow> cell list" where
  "grow feat rest =
     (if filter (touches feat) rest = [] then feat
      else grow (feat @ filter (touches feat) rest)
                (filter (\<lambda>x. \<not> touches feat x) rest))"
  by pat_completeness auto
termination
proof (relation "measure (\<lambda>(feat, rest). length rest)")
  show "wf (measure (\<lambda>(feat, rest). length rest))" by simp
next
  fix feat rest :: "cell list"
  assume "filter (touches feat) rest \<noteq> []"
  then obtain x where "x \<in> set rest" and "touches feat x"
    by (auto simp: filter_empty_conv)
  then have "length (filter (\<lambda>x. \<not> touches feat x) rest) < length rest"
    by (intro length_filter_less [of x]) simp_all
  then show "((feat @ filter (touches feat) rest,
               filter (\<lambda>x. \<not> touches feat x) rest), (feat, rest))
             \<in> measure (\<lambda>(feat, rest). length rest)"
    by simp
qed

declare grow.simps [simp del]

function components :: "cell list \<Rightarrow> cell list list" where
  "components [] = []"
| "components (c # cs) =
     grow [c] cs # components (filter (\<lambda>x. x \<notin> set (grow [c] cs)) cs)"
  by pat_completeness auto
termination
  by (relation "measure length") (auto simp: less_Suc_eq_le)

fun label_of :: "nat \<Rightarrow> cell list list \<Rightarrow> cell \<Rightarrow> nat" where
  "label_of i [] x = 0"
| "label_of i (feat # feats) x = (if x \<in> set feat then i else label_of (Suc i) feats x)"

definition label :: "bool list list \<Rightarrow> nat list list \<times> nat" where
  "label nparr =
     (let feats = components (true_cells nparr)
      in (map (\<lambda>r. map (\<lambda>c. if nparr ! r ! c then label_of 1 feats (r, c) else 0)
                     [0..<length (nparr ! r)]) [0..<length nparr],
          length feats))"

subsection \<open>The function\<close>

text \<open>
  \<^verbatim>\<open>np.where(labeled_array == i)\<close> gives the rows and the columns of the cells that carry
  the label, in row-major order; \<^verbatim>\<open>min()\<close> and \<^verbatim>\<open>max()\<close> of an empty array raise
  ValueError. A rectangle is the list \<^verbatim>\<open>[x0, x1, x2, x3]\<close> that line 203 appends, kept as a
  4-tuple. The source:
  \<^verbatim>\<open>
  def find_contiguous_rectangles(nparr):
      rectangles = []
      labeled_array, num_features = label(nparr)
      for i in range(1, num_features+1):
          rows, cols = np.where(labeled_array == i)
          rectangles.append([ int(cols.min()), int(rows.min()), int(cols.max()), int(rows.max()) ])
      rectangles = sorted(rectangles, key=lambda x: 2*x[0] + x[1])
      return rectangles
  \<close>
\<close>

type_synonym rect = "int \<times> int \<times> int \<times> int"

definition np_where :: "nat list list \<Rightarrow> nat \<Rightarrow> cell list" where
  "np_where labeled_array i = filter (\<lambda>(r, c). labeled_array ! r ! c = i) (positions labeled_array)"

fun np_min :: "nat list \<Rightarrow> error + nat" where
  "np_min [] = Inl ValueError"
| "np_min (x # xs) = Inr (fold min xs x)"

fun np_max :: "nat list \<Rightarrow> error + nat" where
  "np_max [] = Inl ValueError"
| "np_max (x # xs) = Inr (fold max xs x)"

definition rectangle_of :: "nat list list \<Rightarrow> nat \<Rightarrow> error + rect" where
  "rectangle_of labeled_array i =
     (let rows = map fst (np_where labeled_array i);
          cols = map snd (np_where labeled_array i)
      in case np_min cols of Inl e \<Rightarrow> Inl e | Inr cmin \<Rightarrow>
         case np_min rows of Inl e \<Rightarrow> Inl e | Inr rmin \<Rightarrow>
         case np_max cols of Inl e \<Rightarrow> Inl e | Inr cmax \<Rightarrow>
         case np_max rows of Inl e \<Rightarrow> Inl e | Inr rmax \<Rightarrow>
           Inr (int cmin, int rmin, int cmax, int rmax))"

text \<open>The loop of lines 201 to 203: the rectangles in the order of their labels.\<close>

fun rectangles_loop :: "nat list list \<Rightarrow> nat list \<Rightarrow> error + rect list" where
  "rectangles_loop labeled_array [] = Inr []"
| "rectangles_loop labeled_array (i # js) =
     (case rectangle_of labeled_array i of Inl e \<Rightarrow> Inl e | Inr r \<Rightarrow>
      case rectangles_loop labeled_array js of Inl e \<Rightarrow> Inl e | Inr rs \<Rightarrow> Inr (r # rs))"

definition discovered_rectangles :: "bool list list \<Rightarrow> error + rect list" where
  "discovered_rectangles nparr =
     (case label nparr of (labeled_array, num_features) \<Rightarrow>
        rectangles_loop labeled_array [1..<num_features + 1])"

text \<open>The key of line 204, \<^verbatim>\<open>lambda x: 2*x[0] + x[1]\<close>.\<close>

fun rect_key :: "rect \<Rightarrow> int" where
  "rect_key (x0, x1, x2, x3) = 2 * x0 + x1"

text \<open>
  Python's \<^verbatim>\<open>sorted\<close> is a stable sort by the key; so is \<^const>\<open>sort_key\<close>, and a stable
  sort has one result.
\<close>

definition find_contiguous_rectangles :: "bool list list \<Rightarrow> error + rect list" where
  "find_contiguous_rectangles nparr =
     (case discovered_rectangles nparr of Inl e \<Rightarrow> Inl e
      | Inr rectangles \<Rightarrow> Inr (sort_key rect_key rectangles))"

section \<open>PixelGrid\<close>

text \<open>
  A PIL image of mode RGB or RGBA (the two channel depths of the PixelGrid): its mode, its
  size and its rows of pixels, top to bottom, each pixel the list of its 8-bit samples.
  \<^verbatim>\<open>np.array(img)\<close> is the same rows, an array of shape (height, width, channels).
\<close>

datatype mode = RGB | RGBA

type_synonym pixel = "8 word list"

record image =
  mode :: mode
  width :: nat
  height :: nat
  pixels :: "pixel list list"

fun channels :: "mode \<Rightarrow> nat" where
  "channels RGB = 3"
| "channels RGBA = 4"

definition wf_image :: "image \<Rightarrow> bool" where
  "wf_image img \<longleftrightarrow>
     length (pixels img) = height img \<and>
     list_all (\<lambda>row. length row = width img \<and>
                      list_all (\<lambda>px. length px = channels (mode img)) row) (pixels img)"

text \<open>\<^verbatim>\<open>img.getpixel((x, y))\<close> raises IndexError outside the image.\<close>

definition getpixel :: "image \<Rightarrow> nat \<times> nat \<Rightarrow> error + pixel" where
  "getpixel img xy =
     (case xy of (x, y) \<Rightarrow>
        if x < width img \<and> y < height img then Inr (pixels img ! y ! x) else Inl IndexError)"

text \<open>
  \<^verbatim>\<open>img.crop((left, upper, right, lower))\<close> of PIL: ValueError when right is less than left or
  lower is less than upper; otherwise an image of size (right - left, lower - upper) of the same
  mode, whose pixels outside the source are 0 in every channel.
\<close>

definition pixel_or_zero :: "image \<Rightarrow> int \<Rightarrow> int \<Rightarrow> pixel" where
  "pixel_or_zero img x y =
     (if 0 \<le> x \<and> x < int (width img) \<and> 0 \<le> y \<and> y < int (height img)
      then pixels img ! nat y ! nat x
      else replicate (channels (mode img)) 0)"

definition pil_crop :: "image \<Rightarrow> rect \<Rightarrow> error + image" where
  "pil_crop img box =
     (case box of (left, upper, right, lower) \<Rightarrow>
        if right < left \<or> lower < upper then Inl ValueError
        else Inr \<lparr> mode = mode img,
                   width = nat (right - left),
                   height = nat (lower - upper),
                   pixels = map (\<lambda>y. map (\<lambda>x. pixel_or_zero img (left + int x) (upper + int y))
                                         [0..<nat (right - left)])
                                [0..<nat (lower - upper)] \<rparr>)"

section \<open>ToleranceCropper: \<^verbatim>\<open>hex_to_rgb\<close> and \<^verbatim>\<open>crop\<close>\<close>

subsection \<open>The builtin \<^verbatim>\<open>int(s, 16)\<close>\<close>

text \<open>
  A string is a list of characters with code points below 256. \<^verbatim>\<open>int(s, 16)\<close> reads:
  whitespace, an optional sign, an optional prefix \<^verbatim>\<open>0x\<close> or \<^verbatim>\<open>0X\<close> (and one underscore
  after it), at least one hexadecimal digit, with single underscores allowed between digits,
  and whitespace to the end. Anything else raises ValueError: \<open>None\<close> here.
\<close>

definition is_space :: "char \<Rightarrow> bool" where
  "is_space c \<longleftrightarrow> (of_char c :: nat) \<in> {9, 10, 11, 12, 13, 32, 133, 160}"

definition digit_value :: "char \<Rightarrow> int option" where
  "digit_value c =
     (let n = (of_char c :: nat) in
      if 48 \<le> n \<and> n \<le> 57 then Some (int n - 48)
      else if 97 \<le> n \<and> n \<le> 102 then Some (int n - 87)
      else if 65 \<le> n \<and> n \<le> 70 then Some (int n - 55)
      else None)"

text \<open>
  \<open>scan_digits acc prev s\<close> reads digits and underscores from \<open>s\<close>; \<open>prev\<close> says that the
  character before was an underscore. It returns the value and what follows the digits.
\<close>

fun scan_digits :: "int \<Rightarrow> bool \<Rightarrow> string \<Rightarrow> (int \<times> string) option" where
  "scan_digits acc prev [] = (if prev then None else Some (acc, []))"
| "scan_digits acc prev (c # cs) =
     (if c = CHR ''_'' then (if prev then None else scan_digits acc True cs)
      else case digit_value c of
             Some d \<Rightarrow> scan_digits (16 * acc + d) False cs
           | None \<Rightarrow> if prev then None else Some (acc, c # cs))"

fun strip_sign :: "string \<Rightarrow> bool \<times> string" where
  "strip_sign [] = (False, [])"
| "strip_sign (c # cs) =
     (if c = CHR ''+'' then (False, cs) else if c = CHR ''-'' then (True, cs)
      else (False, c # cs))"

fun strip_prefix16 :: "string \<Rightarrow> string" where
  "strip_prefix16 (z # x # cs) =
     (if z = CHR ''0'' \<and> (x = CHR ''x'' \<or> x = CHR ''X'')
      then (case cs of [] \<Rightarrow> [] | u # us \<Rightarrow> if u = CHR ''_'' then us else u # us)
      else z # x # cs)"
| "strip_prefix16 s = s"

definition py_int16 :: "string \<Rightarrow> int option" where
  "py_int16 s =
     (case strip_sign (dropWhile is_space s) of (neg, s2) \<Rightarrow>
        (case strip_prefix16 s2 of
           [] \<Rightarrow> None
         | c # cs \<Rightarrow>
             if digit_value c = None then None
             else (case scan_digits 0 False (c # cs) of
                     None \<Rightarrow> None
                   | Some (v, rest) \<Rightarrow>
                       if list_all is_space rest then Some (if neg then - v else v)
                       else None)))"

subsection \<open>\<^verbatim>\<open>hex_to_rgb\<close>\<close>

text \<open>
  \<^verbatim>\<open>
  def hex_to_rgb(hex):
      hex = hex.lstrip("#")
      if len(hex) != 6:
          raise ValueError("Hex color must be 7 characters long incl. #")
      return tuple(int(hex[i:i+2], 16) for i in (0, 2, 4))
  \<close>
  \<^verbatim>\<open>lstrip("#")\<close> removes every leading \<^verbatim>\<open>#\<close>, however many there are.
\<close>

definition lstrip_hash :: "string \<Rightarrow> string" where
  "lstrip_hash s = dropWhile (\<lambda>c. c = CHR ''#'') s"

definition hex_to_rgb :: "string \<Rightarrow> error + int list" where
  "hex_to_rgb hex =
     (let h = lstrip_hash hex in
      if length h \<noteq> 6 then Inl ValueError
      else case py_int16 (take 2 h) of None \<Rightarrow> Inl ValueError | Some r \<Rightarrow>
           case py_int16 (take 2 (drop 2 h)) of None \<Rightarrow> Inl ValueError | Some g \<Rightarrow>
           case py_int16 (take 2 (drop 4 h)) of None \<Rightarrow> Inl ValueError | Some b \<Rightarrow>
             Inr [r, g, b])"

subsection \<open>\<^verbatim>\<open>crop\<close>\<close>

text \<open>
  \<^verbatim>\<open>
  def crop(img, region, autocrop_color, autocrop_tolerance):
      autocrop_tolerance = (autocrop_tolerance / 100) * 255
      if autocrop_color.upper() == 'AUTO':
          autocrop_color = np.array(img.getpixel((0, 0)), dtype=np.int16)
      elif autocrop_color.upper() == 'NO':
          autocrop_color = False
      else:
          autocrop_color = np.array(hex_to_rgb(autocrop_color), dtype=np.int16)
      img_cropped = img.crop(region)
      if autocrop_color is not False:
          np_cropped = np.array(img_cropped, dtype=np.int16)
          mask = np.all(np.abs(np_cropped[:, :, :3] - autocrop_color[:3]) <= autocrop_tolerance, axis=-1)
          coords = np.argwhere(~mask)
          if coords.size:
              top, left = coords.min(axis=0)
              bottom, right = coords.max(axis=0) + 1
              img_cropped = img_cropped.crop((left, top, right, bottom))
      return img_cropped
  \<close>
  The tolerance is a Python float; it is taken as the exact number \<open>t / 100 * 255\<close>. The
  samples are widened to \<^verbatim>\<open>int16\<close> before the subtraction; a sample is between 0 and 255 and
  a channel of the reference colour is a two-character \<^verbatim>\<open>int(_, 16)\<close>, between -15 and 255, so
  no difference leaves the range of \<^verbatim>\<open>int16\<close> and the differences are those of the integers.
\<close>

definition tolerance_abs :: "int \<Rightarrow> real" where
  "tolerance_abs autocrop_tolerance = (real_of_int autocrop_tolerance / 100) * 255"

text \<open>\<^verbatim>\<open>str.upper\<close> on the letters a to z; the other characters are kept.\<close>

definition upper_char :: "char \<Rightarrow> char" where
  "upper_char c =
     (case map_of (zip ''abcdefghijklmnopqrstuvwxyz'' ''ABCDEFGHIJKLMNOPQRSTUVWXYZ'') c of
        Some u \<Rightarrow> u
      | None \<Rightarrow> c)"

definition upper :: "string \<Rightarrow> string" where
  "upper s = map upper_char s"

text \<open>The reference colour: \<open>None\<close> stands for \<^verbatim>\<open>False\<close>, no autocrop.\<close>

definition autocrop_reference :: "image \<Rightarrow> string \<Rightarrow> error + int list option" where
  "autocrop_reference img autocrop_color =
     (if upper autocrop_color = ''AUTO'' then
        (case getpixel img (0, 0) of Inl e \<Rightarrow> Inl e | Inr px \<Rightarrow> Inr (Some (map uint px)))
      else if upper autocrop_color = ''NO'' then Inr None
      else (case hex_to_rgb autocrop_color of Inl e \<Rightarrow> Inl e | Inr rgb \<Rightarrow> Inr (Some rgb)))"

text \<open>
  One entry of \<^verbatim>\<open>mask\<close>: all of the first three channels of the pixel are within the
  tolerance of the reference colour.
\<close>

definition within_tolerance :: "int list \<Rightarrow> real \<Rightarrow> pixel \<Rightarrow> bool" where
  "within_tolerance color tol px =
     list_all (\<lambda>d. real_of_int \<bar>d\<bar> \<le> tol)
       (map2 (\<lambda>p c. uint p - c) (take 3 px) (take 3 color))"

definition tolerance_mask :: "image \<Rightarrow> int list \<Rightarrow> real \<Rightarrow> bool list list" where
  "tolerance_mask img_cropped color tol = map (map (within_tolerance color tol)) (pixels img_cropped)"

text \<open>\<^verbatim>\<open>np.argwhere(~mask)\<close>: the (row, column) of every entry that is false, in row-major order.\<close>

definition argwhere_not :: "bool list list \<Rightarrow> cell list" where
  "argwhere_not m = filter (\<lambda>(r, c). \<not> m ! r ! c) (positions m)"

definition autocrop :: "image \<Rightarrow> int list \<Rightarrow> real \<Rightarrow> error + image" where
  "autocrop img_cropped color tol =
     (let coords = argwhere_not (tolerance_mask img_cropped color tol) in
      if coords \<noteq> [] then
        (case np_min (map fst coords) of Inl e \<Rightarrow> Inl e | Inr rmin \<Rightarrow>
         case np_min (map snd coords) of Inl e \<Rightarrow> Inl e | Inr cmin \<Rightarrow>
         case np_max (map fst coords) of Inl e \<Rightarrow> Inl e | Inr rmax \<Rightarrow>
         case np_max (map snd coords) of Inl e \<Rightarrow> Inl e | Inr cmax \<Rightarrow>
           pil_crop img_cropped (int cmin, int rmin, int cmax + 1, int rmax + 1))
      else Inr img_cropped)"

definition crop :: "image \<Rightarrow> rect \<Rightarrow> string \<Rightarrow> int \<Rightarrow> error + image" where
  "crop img region autocrop_color autocrop_tolerance =
     (case autocrop_reference img autocrop_color of Inl e \<Rightarrow> Inl e | Inr reference \<Rightarrow>
      case pil_crop img region of Inl e \<Rightarrow> Inl e | Inr img_cropped \<Rightarrow>
        (case reference of
           None \<Rightarrow> Inr img_cropped
         | Some color \<Rightarrow> autocrop img_cropped color (tolerance_abs autocrop_tolerance)))"

section \<open>Melder: \<^verbatim>\<open>resize_and_center\<close>, \<^verbatim>\<open>combine_two\<close> and \<^verbatim>\<open>combine_multiple\<close>\<close>

text \<open>
  \<^verbatim>\<open>
  def resize_and_center(img, target_size):
      if img.size == target_size:
          return img
      new_img = Image.new("RGBA", target_size, (0, 0, 0, 0))  # fully transparent
      new_img.paste(img, ((target_size[0] - img.size[0]) // 2, (target_size[1] - img.size[1]) // 2))
      return new_img
  \<close>
  \<^verbatim>\<open>Image.new("RGBA", size, (0, 0, 0, 0))\<close> is an image of that size with every sample 0.
  \<^verbatim>\<open>paste\<close> into an RGBA image converts the pasted image to RGBA first (an RGB pixel gets the
  alpha 255) and copies its pixels, alpha included, to the box that starts at the offset; what
  falls outside the target is dropped.
\<close>

definition convert_rgba :: "mode \<Rightarrow> pixel \<Rightarrow> pixel" where
  "convert_rgba m px = (case m of RGB \<Rightarrow> px @ [255] | RGBA \<Rightarrow> px)"

definition new_rgba :: "nat \<times> nat \<Rightarrow> image" where
  "new_rgba target =
     \<lparr> mode = RGBA, width = fst target, height = snd target,
       pixels = replicate (snd target) (replicate (fst target) [0, 0, 0, 0]) \<rparr>"

definition paste :: "image \<Rightarrow> image \<Rightarrow> int \<times> int \<Rightarrow> image" where
  "paste new_img img offset =
     (case offset of (ox, oy) \<Rightarrow>
        new_img \<lparr> pixels :=
          map (\<lambda>y. map (\<lambda>x.
                 if ox \<le> int x \<and> int x < ox + int (width img) \<and>
                    oy \<le> int y \<and> int y < oy + int (height img)
                 then convert_rgba (mode img) (pixels img ! nat (int y - oy) ! nat (int x - ox))
                 else pixels new_img ! y ! x)
               [0..<width new_img])
            [0..<height new_img] \<rparr>)"

definition resize_and_center :: "image \<Rightarrow> nat \<times> nat \<Rightarrow> image" where
  "resize_and_center img target =
     (if (width img, height img) = target then img
      else paste (new_rgba target) img
             ((int (fst target) - int (width img)) div 2,
              (int (snd target) - int (height img)) div 2))"

text \<open>
  \<^verbatim>\<open>
  def combine_two(img1, img2, method):
      assert method in ['min', 'max'], "Method must be 'min' or 'max'."
      ...
      max_dims = max(img1.width, img2.width), max(img1.height, img2.height)
      img1 = np.array(resize_and_center(img1, max_dims))
      img2 = np.array(resize_and_center(img2, max_dims))
      if method == 'min':
          combined = np.minimum(img1, img2)
      elif method == 'max':
          combined = np.maximum(img1, img2)
      return Image.fromarray(combined.astype(np.uint8))
  \<close>
  The two arrays have the shapes (height, width, channels) of the two centred images.
  \<^verbatim>\<open>np.minimum\<close> and \<^verbatim>\<open>np.maximum\<close> work sample by sample on arrays of one shape; here the
  heights and widths agree, and with 3 channels against 4 the shapes cannot be broadcast:
  ValueError. \<^verbatim>\<open>Image.fromarray\<close> gives the image of the array, RGB for 3 channels and RGBA
  for 4.
\<close>

definition combine_two :: "image \<Rightarrow> image \<Rightarrow> string \<Rightarrow> error + image" where
  "combine_two img1 img2 method =
     (if method \<noteq> ''min'' \<and> method \<noteq> ''max'' then Inl AssertionError
      else
        let max_dims = (max (width img1) (width img2), max (height img1) (height img2));
            arr1 = resize_and_center img1 max_dims;
            arr2 = resize_and_center img2 max_dims
        in if channels (mode arr1) \<noteq> channels (mode arr2) then Inl ValueError
           else Inr \<lparr> mode = mode arr1, width = fst max_dims, height = snd max_dims,
                      pixels = map2 (map2 (map2 (if method = ''min'' then min else max)))
                                 (pixels arr1) (pixels arr2) \<rparr>)"

text \<open>
  \<^verbatim>\<open>combine_multiple\<close> folds \<^verbatim>\<open>combine_two\<close> over the images from the left; it asserts that
  there is at least one.
\<close>

fun combine_loop :: "image \<Rightarrow> image list \<Rightarrow> string \<Rightarrow> error + image" where
  "combine_loop combined [] method = Inr combined"
| "combine_loop combined (img # imgs) method =
     (case combine_two combined img method of
        Inl e \<Rightarrow> Inl e
      | Inr c \<Rightarrow> combine_loop c imgs method)"

fun combine_multiple :: "image list \<Rightarrow> string \<Rightarrow> error + image" where
  "combine_multiple [] method = Inl AssertionError"
| "combine_multiple (img # imgs) method = combine_loop img imgs method"

text \<open>
  The canvas of one input in the words of the specification: the grid centred on a canvas of
  the common size, at the offset floor((canvas dimension - grid dimension) / 2) on each axis,
  and the fully transparent pixel (0, 0, 0, 0) elsewhere.
\<close>

definition centered_pixel :: "image \<Rightarrow> nat \<times> nat \<Rightarrow> nat \<Rightarrow> nat \<Rightarrow> pixel" where
  "centered_pixel img canvas x y =
     (let ox = (fst canvas - width img) div 2;
          oy = (snd canvas - height img) div 2
      in if ox \<le> x \<and> x < ox + width img \<and> oy \<le> y \<and> y < oy + height img
         then pixels img ! (y - oy) ! (x - ox)
         else [0, 0, 0, 0])"

section \<open>LayoutPlanner: \<^verbatim>\<open>page_size\<close> and \<^verbatim>\<open>merge\<close>\<close>

text \<open>
  The arguments of \<^verbatim>\<open>merge\<close> that the layout reads. \<open>files\<close> holds, for each file of
  \<^verbatim>\<open>args.files\<close> in order, the \<^verbatim>\<open>img.size\<close> (width, height) of the image that \<^verbatim>\<open>Image.open\<close>
  gives. \<^verbatim>\<open>args.size\<close> is a string; \<open>size_arg\<close> is what the code makes of it:
  \<^item> \<open>Auto\<close>: a string whose \<^verbatim>\<open>lower()\<close> is \<^verbatim>\<open>auto\<close>;
  \<^item> \<open>Json dims\<close>: a string that \<^verbatim>\<open>json.loads\<close> reads as the list of numbers \<open>dims\<close>;
  \<^item> \<open>Name s\<close>: a string \<open>s\<close> that \<^verbatim>\<open>json.loads\<close> rejects, looked up in \<^verbatim>\<open>PAGE_SIZES\<close>.
  \<^verbatim>\<open>args.expand\<close> is the list of integers after \<^verbatim>\<open>--expand\<close>; the option is declared with
  \<^verbatim>\<open>nargs='*'\<close> and no default (line 50), so it is \<^verbatim>\<open>None\<close> when the option is not given.
  \<open>output_exists\<close> is \<^verbatim>\<open>os.path.exists(args.output)\<close>. \<^verbatim>\<open>args.margin\<close> is a number, as its
  default 20 is. Lengths in millimetres and the scale are Python floats; they are taken as
  exact real numbers. The encoder parameters (\<^verbatim>\<open>merge_pillow_options\<close>) and the calls of the
  PDF writer compute no part of the layout and are left out.
\<close>

datatype size_arg = Auto | Json "real list" | Name string

record args =
  files :: "(nat \<times> nat) list"
  margin :: real
  size_opt :: size_arg
  dpi :: int
  expand :: "int list option"
  output_exists :: bool

definition PAGE_SIZES :: "string \<Rightarrow> real list option" where
  "PAGE_SIZES =
     map_of [(''A4'', [210, 297]), (''A5'', [148, 210]),
             (''letter'', [215.9, 279.4]), (''legal'', [215.9, 355.6])]"

text \<open>
  \<^verbatim>\<open>
  def page_size(str):
      try:
          return json.loads(str)
      except json.decoder.JSONDecodeError:
          return PAGE_SIZES[str]
  \<close>
\<close>

fun page_size :: "size_arg \<Rightarrow> error + real list" where
  "page_size (Json dims) = Inr dims"
| "page_size (Name s) = (case PAGE_SIZES s of None \<Rightarrow> Inl KeyError | Some dims \<Rightarrow> Inr dims)"
| "page_size Auto = Inl KeyError"

text \<open>Lines 110 to 113: the running element-wise maximum of the image sizes, from \<open>[0, 0]\<close>.\<close>

fun max_img_dim_loop :: "nat list \<Rightarrow> (nat \<times> nat) list \<Rightarrow> nat list" where
  "max_img_dim_loop max_img_dim [] = max_img_dim"
| "max_img_dim_loop max_img_dim (img_size # fs) =
     max_img_dim_loop (map2 max max_img_dim [fst img_size, snd img_size]) fs"

definition max_img_dim :: "(nat \<times> nat) list \<Rightarrow> nat list" where
  "max_img_dim fs = max_img_dim_loop [0, 0] fs"

text \<open>
  A comprehension \<^verbatim>\<open>[i/p for i, p in ...]\<close>: Python's division raises ZeroDivisionError for
  the divisor 0. \<^verbatim>\<open>max\<close> of an empty list raises ValueError.
\<close>

fun div_list :: "(real \<times> real) list \<Rightarrow> error + real list" where
  "div_list [] = Inr []"
| "div_list (ip # rest) =
     (if snd ip = 0 then Inl ZeroDivisionError
      else case div_list rest of Inl e \<Rightarrow> Inl e | Inr qs \<Rightarrow> Inr (fst ip / snd ip # qs))"

fun py_max :: "real list \<Rightarrow> error + real" where
  "py_max [] = Inl ValueError"
| "py_max (v # vs) = Inr (fold max vs v)"

text \<open>
  Lines 116 to 124:
  \<^verbatim>\<open>
      if args.size.lower() == 'auto':
          scale = args.dpi / 25.4  # px/mm
          page_dim = [ 2*args.margin + i/scale for i in max_img_dim]  # mm
      else:
          page_dim = page_size(args.size)
          page_sans_margin = [ d - 2*args.margin for d in page_dim ]
          scale = max([ i/p for i, p in zip(max_img_dim, page_sans_margin) ])
  \<close>
\<close>

definition merge_page_and_scale :: "args \<Rightarrow> nat list \<Rightarrow> error + real list \<times> real" where
  "merge_page_and_scale a max_dim =
     (if size_opt a = Auto then
        (let scale = real_of_int (dpi a) / 25.4 in
         case div_list (map (\<lambda>i. (real i, scale)) max_dim) of
           Inl e \<Rightarrow> Inl e
         | Inr qs \<Rightarrow> Inr (map (\<lambda>q. 2 * margin a + q) qs, scale))
      else
        (case page_size (size_opt a) of
           Inl e \<Rightarrow> Inl e
         | Inr page_dim \<Rightarrow>
             (let page_sans_margin = map (\<lambda>d. d - 2 * margin a) page_dim in
              case div_list (zip (map real max_dim) page_sans_margin) of
                Inl e \<Rightarrow> Inl e
              | Inr ratios \<Rightarrow>
                  (case py_max ratios of
                     Inl e \<Rightarrow> Inl e
                   | Inr scale \<Rightarrow> Inr (page_dim, scale)))))"

text \<open>
  The body of the loop, lines 138 to 150, for the image at index \<open>i\<close> (from 0):
  \<^verbatim>\<open>
          if i+1 in args.expand:
              img_scale = max([ i/p for i, p in zip(img.size, page_dim) ])
          else:
              img_scale = scale
          img_dim = [ i_s / img_scale for i_s in img.size]
          img_offset = [ (p-i)/2 for i, p in zip(img_dim, page_dim)]
          ...
              pdf.image(temp_img_file.name, x=img_offset[0], y=img_offset[1], w=img_dim[0], h=img_dim[1])
  \<close>
  \<^verbatim>\<open>i+1 in args.expand\<close> raises TypeError when \<^verbatim>\<open>args.expand\<close> is \<^verbatim>\<open>None\<close>. A placement is
  the four numbers passed to \<^verbatim>\<open>pdf.image\<close>.
\<close>

record placement =
  image_x :: real
  image_y :: real
  image_w :: real
  image_h :: real

definition merge_place ::
  "real list \<Rightarrow> real \<Rightarrow> int list option \<Rightarrow> nat \<Rightarrow> nat \<times> nat \<Rightarrow> error + placement" where
  "merge_place page_dim scale expand_arg i img_size =
     (case expand_arg of
        None \<Rightarrow> Inl TypeError
      | Some es \<Rightarrow>
          (case (if int i + 1 \<in> set es
                 then (case div_list (zip [real (fst img_size), real (snd img_size)] page_dim) of
                         Inl e \<Rightarrow> Inl e
                       | Inr ratios \<Rightarrow> py_max ratios)
                 else Inr scale) of
             Inl e \<Rightarrow> Inl e
           | Inr img_scale \<Rightarrow>
               (case div_list [(real (fst img_size), img_scale), (real (snd img_size), img_scale)] of
                  Inl e \<Rightarrow> Inl e
                | Inr img_dim \<Rightarrow>
                    (let img_offset = map2 (\<lambda>i p. (p - i) / 2) img_dim page_dim in
                     if length img_offset < 2 then Inl IndexError
                     else Inr \<lparr> image_x = img_offset ! 0, image_y = img_offset ! 1,
                                image_w = img_dim ! 0, image_h = img_dim ! 1 \<rparr>))))"

fun merge_loop ::
  "real list \<Rightarrow> real \<Rightarrow> int list option \<Rightarrow> nat \<Rightarrow> (nat \<times> nat) list \<Rightarrow> error + placement list" where
  "merge_loop page_dim scale expand_arg i [] = Inr []"
| "merge_loop page_dim scale expand_arg i (img_size # fs) =
     (case merge_place page_dim scale expand_arg i img_size of
        Inl e \<Rightarrow> Inl e
      | Inr p \<Rightarrow>
          (case merge_loop page_dim scale expand_arg (Suc i) fs of
             Inl e \<Rightarrow> Inl e
           | Inr ps \<Rightarrow> Inr (p # ps)))"

text \<open>
  \<^verbatim>\<open>merge\<close>: the check of line 106, the page and the scale, and one page per image. The
  result is the page size, the global scale and the placements in the order of the pages.
\<close>

definition merge :: "args \<Rightarrow> error + real list \<times> real \<times> placement list" where
  "merge a =
     (if output_exists a then Inl FileExistsError
      else case merge_page_and_scale a (max_img_dim (files a)) of
             Inl e \<Rightarrow> Inl e
           | Inr (page_dim, scale) \<Rightarrow>
               (case merge_loop page_dim scale (expand a) 0 (files a) of
                  Inl e \<Rightarrow> Inl e
                | Inr ps \<Rightarrow> Inr (page_dim, scale, ps)))"


section \<open>Properties of RegionExtractor\<close>

subsection \<open>Every feature that \<open>label\<close> counts has a cell\<close>









text \<open>
  C1. The rectangle that line 203 appends is \<open>[cols.min(), rows.min(), cols.max(), rows.max()]\<close>:
  the right and bottom edges are the largest column and row themselves, not one more. A single
  true cell gives \<open>[0, 0, 0, 0]\<close>, and the two blocks of 2 by 2 cells at (0,0)-(1,1) and
  (5,5)-(6,6) give \<open>[[0, 0, 1, 1], [5, 5, 6, 6]]\<close>. The autocrop of \<open>crop\<close> (line 251)
  adds the 1, and the rectangles are passed to the same \<open>Image.crop\<close>.
\<close>

theorem find_contiguous_rectangles_inclusive_edges:
  "find_contiguous_rectangles [[True]] = Inr [(0, 0, 0, 0)]
   \<and> find_contiguous_rectangles
        [[True, True, False, False, False, False, False],
         [True, True, False, False, False, False, False],
         [False, False, False, False, False, False, False],
         [False, False, False, False, False, False, False],
         [False, False, False, False, False, False, False],
         [False, False, False, False, False, True, True],
         [False, False, False, False, False, True, True]]
       = Inr [(0, 0, 1, 1), (5, 5, 6, 6)]"
  by code_simp

section \<open>Properties of ToleranceCropper\<close>

subsection \<open>Colour parsing\<close>

lemma digit_value_not_special:
  assumes "digit_value c = Some v"
  shows "\<not> is_space c" "c \<noteq> CHR ''+''" "c \<noteq> CHR ''-''" "c \<noteq> CHR ''_''"
        "c \<noteq> CHR ''x''" "c \<noteq> CHR ''X''" "c \<noteq> CHR ''#''"
  using assms by (auto simp: digit_value_def is_space_def Let_def split: if_splits)

lemma py_int16_two_digits:
  assumes "digit_value a = Some x" "digit_value b = Some y"
  shows "py_int16 [a, b] = Some (16 * x + y)"
  using assms digit_value_not_special [OF assms(1)] digit_value_not_special [OF assms(2)]
  by (simp add: py_int16_def)

lemma lstrip_hash_replicate:
  assumes "ds \<noteq> []" "hd ds \<noteq> CHR ''#''"
  shows "lstrip_hash (replicate n (CHR ''#'') @ ds) = ds"
  using assms by (induction n) (auto simp: lstrip_hash_def neq_Nil_conv)

text \<open>
  C5, as the code has it. \<open>hex_to_rgb\<close> removes every leading \<^verbatim>\<open>#\<close>, and none need be there:
  for six hexadecimal digits after any number \<open>n\<close> of \<^verbatim>\<open>#\<close> it returns the three channel
  values, each \<open>16 * high digit + low digit\<close>; and for every string whose rest after the
  leading \<^verbatim>\<open>#\<close> has a length other than 6 it raises ValueError.
\<close>

theorem hex_to_rgb_accepts_and_rejects:
  "(length ds = 6 \<and> list_all (\<lambda>c. digit_value c \<noteq> None) ds \<longrightarrow>
      hex_to_rgb (replicate n (CHR ''#'') @ ds) =
        Inr [16 * the (digit_value (ds ! 0)) + the (digit_value (ds ! 1)),
             16 * the (digit_value (ds ! 2)) + the (digit_value (ds ! 3)),
             16 * the (digit_value (ds ! 4)) + the (digit_value (ds ! 5))])
   \<and> (length (lstrip_hash s) \<noteq> 6 \<longrightarrow> hex_to_rgb s = Inl ValueError)"
proof (intro conjI impI)
  assume "length (lstrip_hash s) \<noteq> 6"
  then show "hex_to_rgb s = Inl ValueError" by (simp add: hex_to_rgb_def)
next
  assume a: "length ds = 6 \<and> list_all (\<lambda>c. digit_value c \<noteq> None) ds"
  then obtain d0 d1 d2 d3 d4 d5 where ds: "ds = [d0, d1, d2, d3, d4, d5]"
    by (auto simp: length_Suc_conv eval_nat_numeral)
  with a obtain v0 v1 v2 v3 v4 v5 where v:
    "digit_value d0 = Some v0" "digit_value d1 = Some v1" "digit_value d2 = Some v2"
    "digit_value d3 = Some v3" "digit_value d4 = Some v4" "digit_value d5 = Some v5"
    by auto
  have "lstrip_hash (replicate n (CHR ''#'') @ ds) = ds"
    using ds digit_value_not_special(7) [OF v(1)] by (intro lstrip_hash_replicate) simp_all
  then show "hex_to_rgb (replicate n (CHR ''#'') @ ds) =
        Inr [16 * the (digit_value (ds ! 0)) + the (digit_value (ds ! 1)),
             16 * the (digit_value (ds ! 2)) + the (digit_value (ds ! 3)),
             16 * the (digit_value (ds ! 4)) + the (digit_value (ds ! 5))]"
    using v py_int16_two_digits [OF v(1) v(2)] py_int16_two_digits [OF v(3) v(4)]
      py_int16_two_digits [OF v(5) v(6)]
    by (simp add: hex_to_rgb_def ds)
qed

text \<open>The theorem at \<^verbatim>\<open>#0a1B2c\<close> and at \<^verbatim>\<open>#fffff\<close>, which has five digits.\<close>

theorem hex_to_rgb_accepts_and_rejects_witness:
  "length ''0a1B2c'' = 6 \<and> list_all (\<lambda>c. digit_value c \<noteq> None) ''0a1B2c''
   \<and> hex_to_rgb ''#0a1B2c'' = Inr [10, 27, 44]
   \<and> length (lstrip_hash ''#fffff'') \<noteq> 6
   \<and> hex_to_rgb ''#fffff'' = Inl ValueError"
  using hex_to_rgb_accepts_and_rejects [of "''0a1B2c''" 1 "''#fffff''"]
  by (simp add: digit_value_def lstrip_hash_def)

text \<open>
  C5 as stated does not hold: the six digits \<^verbatim>\<open>ffffff\<close> with no \<^verbatim>\<open>#\<close> before them are
  accepted, and so are the digits after two \<^verbatim>\<open>#\<close>.
\<close>

theorem hex_to_rgb_without_hash_counterexample:
  "hex_to_rgb ''ffffff'' = Inr [255, 255, 255] \<and> hd ''ffffff'' \<noteq> CHR ''#''
   \<and> hex_to_rgb ''##ffffff'' = Inr [255, 255, 255]"
  by (simp add: hex_to_rgb_def lstrip_hash_def py_int16_def digit_value_def is_space_def)

subsection \<open>The fallback of the autocrop\<close>

lemma argwhere_not_all_true:
  assumes "\<forall>row\<in>set m. \<forall>b\<in>set row. b"
  shows "argwhere_not m = []"
proof -
  have "m ! r ! c" if "(r, c) \<in> set (positions m)" for r c
  proof -
    from that have "r < length m" "c < length (m ! r)" by (auto simp: positions_def)
    then have "m ! r \<in> set m" "m ! r ! c \<in> set (m ! r)" by simp_all
    with assms show ?thesis by blast
  qed
  then show ?thesis
    by (auto simp: argwhere_not_def filter_empty_conv)
qed

lemma autocrop_all_within:
  assumes "\<forall>row\<in>set (pixels sub). \<forall>px\<in>set row. within_tolerance color tol px"
  shows "autocrop sub color tol = Inr sub"
proof -
  have "argwhere_not (tolerance_mask sub color tol) = []"
    using assms by (intro argwhere_not_all_true) (auto simp: tolerance_mask_def)
  then show ?thesis by (simp add: autocrop_def)
qed

text \<open>
  C3. When the autocrop is on (the reference colour resolves to \<open>color\<close>), the region cuts the
  sub-grid \<open>sub\<close> from the image, and every pixel of \<open>sub\<close> is within the tolerance of the
  reference colour, \<open>crop\<close> returns \<open>sub\<close> itself: \<^verbatim>\<open>coords\<close> is empty and the second crop
  is skipped.
\<close>

theorem crop_uniform_unchanged:
  assumes "autocrop_reference img autocrop_color = Inr (Some color)"
    and "pil_crop img region = Inr sub"
    and "\<forall>row\<in>set (pixels sub). \<forall>px\<in>set row.
           within_tolerance color (tolerance_abs autocrop_tolerance) px"
  shows "crop img region autocrop_color autocrop_tolerance = Inr sub"
  using assms(1,2) autocrop_all_within [OF assms(3)] by (simp add: crop_def)

text \<open>
  The theorem on an image of two pixels, white and nearly white, with the colour of the
  top-left pixel and a tolerance of 10 percent (25.5).
\<close>

theorem crop_uniform_unchanged_witness:
  "autocrop_reference
      \<lparr>mode = RGB, width = 2, height = 1, pixels = [[[255, 255, 255], [250, 240, 235]]]\<rparr>
      ''auto'' = Inr (Some [255, 255, 255])
   \<and> pil_crop
      \<lparr>mode = RGB, width = 2, height = 1, pixels = [[[255, 255, 255], [250, 240, 235]]]\<rparr>
      (0, 0, 2, 1)
     = Inr \<lparr>mode = RGB, width = 2, height = 1, pixels = [[[255, 255, 255], [250, 240, 235]]]\<rparr>
   \<and> within_tolerance [255, 255, 255] (tolerance_abs 10) [255, 255, 255]
   \<and> within_tolerance [255, 255, 255] (tolerance_abs 10) [250, 240, 235]
   \<and> crop
      \<lparr>mode = RGB, width = 2, height = 1, pixels = [[[255, 255, 255], [250, 240, 235]]]\<rparr>
      (0, 0, 2, 1) ''auto'' 10
     = Inr \<lparr>mode = RGB, width = 2, height = 1, pixels = [[[255, 255, 255], [250, 240, 235]]]\<rparr>"
proof -
  let ?im = "\<lparr>mode = RGB, width = 2, height = 1, pixels = [[[255, 255, 255], [250, 240, 235 :: 8 word]]]\<rparr>"
  have r: "autocrop_reference ?im ''auto'' = Inr (Some [255, 255, 255])"
    by (simp add: autocrop_reference_def upper_def upper_char_def getpixel_def)
  have c: "pil_crop ?im (0, 0, 2, 1) = Inr ?im"
    by (simp add: pil_crop_def pixel_or_zero_def upt_conv_Cons)
  have w: "\<forall>row\<in>set (pixels ?im). \<forall>px\<in>set row.
             within_tolerance [255, 255, 255] (tolerance_abs 10) px"
    by (simp add: within_tolerance_def tolerance_abs_def)
  have w': "within_tolerance [255, 255, 255] (tolerance_abs 10) [255, 255, 255]"
    "within_tolerance [255, 255, 255] (tolerance_abs 10) [250, 240, 235]"
    by (simp_all add: within_tolerance_def tolerance_abs_def)
  from crop_uniform_unchanged [OF r c w] r c w' show ?thesis by simp
qed

lemma within_tolerance_255:
  assumes "\<forall>c\<in>set (take 3 color). 0 \<le> c \<and> c \<le> 255"
  shows "within_tolerance color (tolerance_abs 100) px"
proof -
  have "real_of_int \<bar>uint p - c\<bar> \<le> 255" if "c \<in> set (take 3 color)" for p :: "8 word" and c
  proof -
    have "0 \<le> uint p" "uint p < 256" using uint_bounded [of p] by simp_all
    moreover have "0 \<le> c" "c \<le> 255" using that assms by auto
    ultimately have "\<bar>uint p - c\<bar> \<le> 255" by linarith
    then show ?thesis by linarith
  qed
  then show ?thesis
    by (auto simp: within_tolerance_def tolerance_abs_def list_all_iff dest: set_zip_rightD)
qed

text \<open>
  C4. With a tolerance of 100 percent the threshold is 255. For every image, every region that
  \<^verbatim>\<open>Image.crop\<close> accepts and every reference colour whose three channels are between 0 and 255,
  \<open>crop\<close> returns the sub-grid unchanged: a sample is between 0 and 255, so no difference
  exceeds 255 and every pixel is background.
\<close>

theorem crop_tolerance_100_unchanged:
  assumes "autocrop_reference img autocrop_color = Inr (Some color)"
    and "\<forall>c\<in>set (take 3 color). 0 \<le> c \<and> c \<le> 255"
    and "pil_crop img region = Inr sub"
  shows "crop img region autocrop_color 100 = Inr sub"
proof -
  have "autocrop sub color (tolerance_abs 100) = Inr sub"
    using within_tolerance_255 [OF assms(2)] by (intro autocrop_all_within) simp
  with assms(1,3) show ?thesis by (simp add: crop_def)
qed

text \<open>
  The theorem on a white and a black pixel with the reference colour \<^verbatim>\<open>#0a1B2c\<close>, whose
  channels are 10, 27 and 44.
\<close>

theorem crop_tolerance_100_unchanged_witness:
  "autocrop_reference
      \<lparr>mode = RGB, width = 2, height = 1, pixels = [[[255, 255, 255], [0, 0, 0]]]\<rparr>
      ''#0a1B2c'' = Inr (Some [10, 27, 44])
   \<and> (0 :: int) \<le> 10 \<and> (10 :: int) \<le> 255
   \<and> (0 :: int) \<le> 27 \<and> (27 :: int) \<le> 255
   \<and> (0 :: int) \<le> 44 \<and> (44 :: int) \<le> 255
   \<and> pil_crop
      \<lparr>mode = RGB, width = 2, height = 1, pixels = [[[255, 255, 255], [0, 0, 0]]]\<rparr>
      (0, 0, 2, 1)
     = Inr \<lparr>mode = RGB, width = 2, height = 1, pixels = [[[255, 255, 255], [0, 0, 0]]]\<rparr>
   \<and> crop
      \<lparr>mode = RGB, width = 2, height = 1, pixels = [[[255, 255, 255], [0, 0, 0]]]\<rparr>
      (0, 0, 2, 1) ''#0a1B2c'' 100
     = Inr \<lparr>mode = RGB, width = 2, height = 1, pixels = [[[255, 255, 255], [0, 0, 0]]]\<rparr>"
proof -
  let ?im = "\<lparr>mode = RGB, width = 2, height = 1, pixels = [[[255, 255, 255], [0, 0, 0 :: 8 word]]]\<rparr>"
  have r: "autocrop_reference ?im ''#0a1B2c'' = Inr (Some [10, 27, 44])"
    by (simp add: autocrop_reference_def upper_def upper_char_def hex_to_rgb_def
        lstrip_hash_def py_int16_def digit_value_def is_space_def)
  have b: "\<forall>c\<in>set (take 3 [10, 27, 44 :: int]). 0 \<le> c \<and> c \<le> 255"
    by simp
  have c: "pil_crop ?im (0, 0, 2, 1) = Inr ?im"
    by (simp add: pil_crop_def pixel_or_zero_def upt_conv_Cons)
  from crop_tolerance_100_unchanged [OF r b c] r c show ?thesis by simp
qed

section \<open>Properties of Melder\<close>

lemma map2_idem: "(\<And>x. f x x = x) \<Longrightarrow> map2 f xs xs = xs"
  by (induction xs) auto

text \<open>
  C7. For every grid \<open>g\<close> and for both methods, \<open>combine_two g g method\<close> returns \<open>g\<close>: the
  common size is the size of \<open>g\<close>, so \<open>resize_and_center\<close> returns \<open>g\<close> twice, and the minimum
  and the maximum of a sample with itself is the sample.
\<close>

theorem combine_two_duplicate:
  assumes "method = ''min'' \<or> method = ''max''"
  shows "combine_two g g method = Inr g"
proof -
  have m: "map2 (map2 (map2 (min :: 8 word \<Rightarrow> _))) xs xs = xs" for xs
    by (intro map2_idem) simp
  have M: "map2 (map2 (map2 (max :: 8 word \<Rightarrow> _))) xs xs = xs" for xs
    by (intro map2_idem) simp
  from assms show ?thesis
    by (auto simp: combine_two_def resize_and_center_def m M)
qed

text \<open>The theorem on an RGBA grid of two pixels with the method \<^verbatim>\<open>max\<close>.\<close>

theorem combine_two_duplicate_witness:
  "(''max'' = ''min'' \<or> ''max'' = ''max'')
   \<and> combine_two \<lparr>mode = RGBA, width = 1, height = 2, pixels = [[[1, 2, 3, 4]], [[5, 6, 7, 8]]]\<rparr>
        \<lparr>mode = RGBA, width = 1, height = 2, pixels = [[[1, 2, 3, 4]], [[5, 6, 7, 8]]]\<rparr> ''max''
     = Inr \<lparr>mode = RGBA, width = 1, height = 2, pixels = [[[1, 2, 3, 4]], [[5, 6, 7, 8]]]\<rparr>"
  using combine_two_duplicate [of "''max''"
      "\<lparr>mode = RGBA, width = 1, height = 2, pixels = [[[1, 2, 3, 4]], [[5, 6, 7, 8]]]\<rparr>"]
  by simp

text \<open>
  C6. \<open>resize_and_center\<close> returns an image that already has the common size as it is, in its
  own mode, and makes an RGBA canvas for the other. For an RGB grid of 2 by 1 pixels and an RGB
  grid of 1 by 1 pixel the first array has 3 channels and the second has 4, and
  \<open>combine_two\<close> raises ValueError instead of returning the grid of 2 by 1 pixels.
\<close>

theorem combine_two_rgb_sizes_differ:
  "combine_two \<lparr>mode = RGB, width = 2, height = 1, pixels = [[[10, 20, 30], [40, 50, 60]]]\<rparr>
               \<lparr>mode = RGB, width = 1, height = 1, pixels = [[[1, 2, 3]]]\<rparr> ''min''
   = Inl ValueError"
  by (simp add: combine_two_def resize_and_center_def paste_def new_rgba_def)

text \<open>
  The same happens whenever an RGB grid has the common size and the other grid is smaller in
  width or height.
\<close>

lemma combine_two_rgb_larger_raises:
  assumes "mode img1 = RGB"
    and "width img2 \<le> width img1" "height img2 \<le> height img1"
    and "(width img2, height img2) \<noteq> (width img1, height img1)"
    and "meth = ''min'' \<or> meth = ''max''"
  shows "combine_two img1 img2 meth = Inl ValueError"
proof -
  have "max (width img1) (width img2) = width img1" "max (height img1) (height img2) = height img1"
    using assms(2,3) by simp_all
  with assms show ?thesis
    by (auto simp: combine_two_def resize_and_center_def paste_def new_rgba_def)
qed

subsection \<open>Two RGBA grids\<close>

text \<open>
  When both grids are RGBA, whatever their sizes, both arrays have 4 channels and the step
  does what the specification says: the result has the element-wise maximum of the two sizes,
  and each of its pixels is the minimum or the maximum, channel by channel and alpha
  included, of the two pixels of the centred canvases.
\<close>

lemma wf_image_rows:
  assumes "wf_image img"
  shows "length (pixels img) = height img"
    and "y < height img \<Longrightarrow> length (pixels img ! y) = width img"
  using assms by (auto simp: wf_image_def list_all_length)

lemma resize_and_center_shape:
  assumes "wf_image img"
  shows "length (pixels (resize_and_center img (W, H))) = H"
    and "y < H \<Longrightarrow> length (pixels (resize_and_center img (W, H)) ! y) = W"
  using wf_image_rows [OF assms]
  by (auto simp: resize_and_center_def paste_def new_rgba_def)

lemma resize_and_center_mode_rgba:
  "mode img = RGBA \<Longrightarrow> mode (resize_and_center img canvas) = RGBA"
  by (cases canvas) (simp add: resize_and_center_def paste_def new_rgba_def)

lemma resize_and_center_pixel:
  assumes "mode img = RGBA" "width img \<le> W" "height img \<le> H" "x < W" "y < H"
  shows "pixels (resize_and_center img (W, H)) ! y ! x = centered_pixel img (W, H) x y"
proof (cases "(width img, height img) = (W, H)")
  case True
  with assms show ?thesis by (simp add: resize_and_center_def centered_pixel_def)
next
  case False
  have ox: "(int W - int (width img)) div 2 = int ((W - width img) div 2)"
    using assms(2) by (simp add: of_nat_diff zdiv_int)
  have oy: "(int H - int (height img)) div 2 = int ((H - height img) div 2)"
    using assms(3) by (simp add: of_nat_diff zdiv_int)
  let ?ox = "(W - width img) div 2" and ?oy = "(H - height img) div 2"
  have nx: "nat (int x - int ?ox) = x - ?ox" and ny: "nat (int y - int ?oy) = y - ?oy"
    by simp_all
  have cx: "(int ?ox \<le> int x \<and> int x < int ?ox + int (width img))
              \<longleftrightarrow> (?ox \<le> x \<and> x < ?ox + width img)"
    by linarith
  have cy: "(int ?oy \<le> int y \<and> int y < int ?oy + int (height img))
              \<longleftrightarrow> (?oy \<le> y \<and> y < ?oy + height img)"
    by linarith
  from False assms(1,4,5) show ?thesis
    using cx cy
    by (auto simp: resize_and_center_def paste_def new_rgba_def centered_pixel_def
        convert_rgba_def ox oy nx ny Let_def)
qed

lemma combine_two_rgba:
  fixes img1 img2 :: image and meth :: string
  defines "W \<equiv> max (width img1) (width img2)" and "H \<equiv> max (height img1) (height img2)"
  defines "f \<equiv> (if meth = ''min'' then min else max) :: 8 word \<Rightarrow> 8 word \<Rightarrow> 8 word"
  assumes "mode img1 = RGBA" "mode img2 = RGBA" "wf_image img1" "wf_image img2"
    and "meth = ''min'' \<or> meth = ''max''"
  shows "\<exists>r. combine_two img1 img2 meth = Inr r \<and> mode r = RGBA
             \<and> width r = W \<and> height r = H
             \<and> (\<forall>y<H. \<forall>x<W. pixels r ! y ! x =
                    map2 f (centered_pixel img1 (W, H) x y) (centered_pixel img2 (W, H) x y))"
proof -
  let ?a1 = "resize_and_center img1 (W, H)" and ?a2 = "resize_and_center img2 (W, H)"
  let ?r = "\<lparr> mode = RGBA, width = W, height = H,
              pixels = map2 (map2 (map2 f)) (pixels ?a1) (pixels ?a2) \<rparr>"
  have m: "mode ?a1 = RGBA" "mode ?a2 = RGBA"
    using assms(4,5) by (simp_all add: resize_and_center_mode_rgba)
  have r: "combine_two img1 img2 meth = Inr ?r"
    using assms(8) m by (auto simp: combine_two_def W_def H_def f_def Let_def)
  have px: "pixels ?r ! y ! x =
              map2 f (centered_pixel img1 (W, H) x y) (centered_pixel img2 (W, H) x y)"
    if "y < H" "x < W" for x y
  proof -
    have l: "length (pixels ?a1) = H" "length (pixels ?a2) = H"
      "length (pixels ?a1 ! y) = W" "length (pixels ?a2 ! y) = W"
      using resize_and_center_shape [OF assms(6)] resize_and_center_shape [OF assms(7)] that
      by simp_all
    have "pixels ?r ! y ! x = map2 f (pixels ?a1 ! y ! x) (pixels ?a2 ! y ! x)"
      using l that by simp
    moreover have "pixels ?a1 ! y ! x = centered_pixel img1 (W, H) x y"
      using that assms(4) by (intro resize_and_center_pixel) (simp_all add: W_def H_def)
    moreover have "pixels ?a2 ! y ! x = centered_pixel img2 (W, H) x y"
      using that assms(5) by (intro resize_and_center_pixel) (simp_all add: W_def H_def)
    ultimately show ?thesis by simp
  qed
  from r px show ?thesis by auto
qed

section \<open>Properties of LayoutPlanner\<close>

subsection \<open>The largest image dimensions\<close>






text \<open>
  C10. A \<open>merge\<close> run with no \<^verbatim>\<open>--expand\<close> option: \<^verbatim>\<open>args.expand\<close> is \<^verbatim>\<open>None\<close>, the test
  \<^verbatim>\<open>i+1 in args.expand\<close> of line 139 raises TypeError for the first image, and nothing is placed.
\<close>

theorem merge_without_expand_raises:
  "merge \<lparr>files = [(100, 60)], margin = 20, size_opt = Auto, dpi = 72,
           expand = None, output_exists = False\<rparr> = Inl TypeError"
  by (simp add: merge_def merge_page_and_scale_def max_img_dim_def merge_place_def)

text \<open>No run with at least one image returns when the option is not given.\<close>

lemma merge_loop_without_expand:
  "fs \<noteq> [] \<Longrightarrow> merge_loop page_dim scale None i fs = Inl TypeError"
  by (cases fs) (simp_all add: merge_place_def)

lemma merge_without_expand_never_returns:
  assumes "expand a = None" "files a \<noteq> []"
  shows "merge a \<noteq> Inr r"
  using assms merge_loop_without_expand [OF assms(2)]
  by (auto simp: merge_def split: sum.splits)

subsection \<open>The fixed page\<close>









end
